theory Spec2Isabelle
  imports Main "HOL-Library.Word"
begin

section \<open>Go values shared by the plugin\<close>

text \<open>
  Byte slices and Go strings are both lists of 8-bit characters; \<open>len\<close> is the list
  length. A Go \<open>error\<close> value is represented by the text its \<open>Error()\<close> method
  returns; a nil \<open>error\<close> is \<open>None\<close> of \<open>go_error option\<close>.
\<close>

type_synonym bytes = string

datatype go_error = GoError string

fun Error :: "go_error \<Rightarrow> string" where
  "Error (GoError s) = s"

text \<open>
  Decimal text of an integer, as \<open>%d\<close> and the JSON encoder print a Go \<open>int\<close>.
\<close>

definition digit :: "nat \<Rightarrow> char" where
  "digit d = ''0123456789'' ! d"

function decimal :: "nat \<Rightarrow> string" where
  "decimal n = (if n < 10 then [digit n] else decimal (n div 10) @ [digit (n mod 10)])"
  by pat_completeness auto
termination
  by (relation "measure id") auto

declare decimal.simps [simp del]

definition Itoa :: "int \<Rightarrow> string" where
  "Itoa i = (if i < 0 then CHR ''-'' # decimal (nat (- i)) else decimal (nat i))"

subsection \<open>The package logger\<close>

datatype log_level = LevelInfo | LevelWarn | LevelError

type_synonym log_entry = "log_level \<times> string"

definition Infof :: "string \<Rightarrow> log_entry list \<Rightarrow> log_entry list" where
  "Infof msg lg = lg @ [(LevelInfo, msg)]"

definition Warnf :: "string \<Rightarrow> log_entry list \<Rightarrow> log_entry list" where
  "Warnf msg lg = lg @ [(LevelWarn, msg)]"

definition Errorf :: "string \<Rightarrow> log_entry list \<Rightarrow> log_entry list" where
  "Errorf msg lg = lg @ [(LevelError, msg)]"

subsection \<open>Metric vectors\<close>

text \<open>
  A counter vector maps a tuple of label values to its count, a histogram vector to the
  list of observed values, a gauge vector to a signed level.
  \<open>WithLabelValues(l...).Inc()\<close> is \<open>Inc l\<close>.
\<close>

type_synonym counter_vec = "string list \<Rightarrow> nat"
type_synonym histogram_vec = "string list \<Rightarrow> nat list"
type_synonym gauge_vec = "string list \<Rightarrow> int"

definition Inc :: "string list \<Rightarrow> counter_vec \<Rightarrow> counter_vec" where
  "Inc lvs c = c(lvs := c lvs + 1)"

definition Observe :: "string list \<Rightarrow> nat \<Rightarrow> histogram_vec \<Rightarrow> histogram_vec" where
  "Observe lvs x hv = hv(lvs := hv lvs @ [x])"

definition gauge_Inc :: "string list \<Rightarrow> gauge_vec \<Rightarrow> gauge_vec" where
  "gauge_Inc lvs g = g(lvs := g lvs + 1)"

definition gauge_Dec :: "string list \<Rightarrow> gauge_vec \<Rightarrow> gauge_vec" where
  "gauge_Dec lvs g = g(lvs := g lvs - 1)"

section \<open>HTTP requests and response writers\<close>

record Request =
  Method :: string
  URL_Path :: string

text \<open>
  \<open>net/http.ResponseWriter\<close>: the header map, the status line once it has been written,
  and the body bytes accepted so far. \<open>WriteHeader\<close> takes effect once (a later call is
  ignored), \<open>Write\<close> sends status 200 first when no status was written yet.
  \<open>write_err\<close> is the behaviour of the connection: the error \<open>Write\<close> returns, if any;
  a failed \<open>Write\<close> adds nothing to the body.
\<close>

record ResponseWriter =
  header :: "string \<rightharpoonup> string"
  status :: "nat option"
  body :: bytes
  write_err :: "go_error option"

definition Header_Set :: "string \<Rightarrow> string \<Rightarrow> ResponseWriter \<Rightarrow> ResponseWriter" where
  "Header_Set k v w = w\<lparr>header := (header w)(k \<mapsto> v)\<rparr>"

definition WriteHeader :: "nat \<Rightarrow> ResponseWriter \<Rightarrow> ResponseWriter" where
  "WriteHeader code w = (case status w of None \<Rightarrow> w\<lparr>status := Some code\<rparr> | Some _ \<Rightarrow> w)"

definition Write :: "bytes \<Rightarrow> ResponseWriter \<Rightarrow> ResponseWriter \<times> go_error option" where
  "Write data w =
     (let w1 = WriteHeader 200 w in
      case write_err w1 of
        Some e \<Rightarrow> (w1, Some e)
      | None \<Rightarrow> (w1\<lparr>body := body w1 @ data\<rparr>, None))"

section \<open>Kratos errors, the response envelope and the encoders' libraries\<close>

text \<open>
  \<open>errors.Error\<close> of Kratos: \<open>Code\<close> is an \<open>int32\<close>. A nil \<open>*errors.Error\<close> is \<open>None\<close>.
\<close>

record kratos_Error =
  Status_Code :: "32 word"
  Status_Reason :: string
  Status_Message :: string

text \<open>
  \<open>Response\<close> (encoder.go): the exported fields; \<open>Data\<close> is an \<open>interface{}\<close>, nil is
  \<open>None\<close>. The three unexported protoimpl fields are never read or written.
\<close>

record 'd Response =
  Code :: int
  Message :: string
  Data :: "'d option"

text \<open>
  The two shapes of value the package hands to \<open>json.Marshal\<close>: the one-entry map
  \<open>map[string]interface{}{"code": c}\<close> and a \<open>*Response\<close>.
\<close>

datatype 'd marshal_arg = CodeMap int | Envelope "'d Response"

text \<open>
  Library functions the encoders call, none of them part of this repository:
  \<open>json.Marshal\<close>, Kratos' \<open>http.CodecForRequest(r, "Accept")\<close> (the codec, nil as
  \<open>None\<close>, and the \<open>ok\<close> flag; a codec is its \<open>Marshal\<close> method) and
  \<open>errors.FromError\<close>. They are parameters of the model.
\<close>

type_synonym 'd codec = "'d Response \<Rightarrow> go_error + bytes"

record 'd libs =
  json_Marshal :: "'d marshal_arg \<Rightarrow> go_error + bytes"
  CodecForRequest :: "Request \<Rightarrow> 'd codec option \<times> bool"
  FromError :: "go_error option \<Rightarrow> kratos_Error option"

text \<open>
  What \<open>encoding/json\<close> produces for the two shapes: an object with the map's single
  key, and for the struct the fields in declaration order under their tags, where
  \<open>omitempty\<close> leaves out a zero \<open>Code\<close>, an empty \<open>Message\<close> and a nil \<open>Data\<close>.
  The text of a JSON string (\<open>quote\<close>) and of a payload (\<open>value\<close>, which may fail)
  are parameters.
\<close>

definition json_object :: "(string \<times> bytes) list \<Rightarrow> bytes" where
  \<open>json_object fs =
     ''{'' @ concat (map (\<lambda>(i, (k, v)). (if i = 0 then [] else '','') @ ''"'' @ k @ ''":'' @ v)
                        (enumerate 0 fs)) @ ''}''\<close>

definition encoding_json_Marshal ::
  "(string \<Rightarrow> bytes) \<Rightarrow> ('d \<Rightarrow> go_error + bytes) \<Rightarrow> 'd marshal_arg \<Rightarrow> go_error + bytes" where
  "encoding_json_Marshal quote val arg =
     (case arg of
        CodeMap c \<Rightarrow> Inr (json_object [(''code'', Itoa c)])
      | Envelope res \<Rightarrow>
          (let fc = (if Code res = 0 then [] else [(''code'', Itoa (Code res))]);
               fm = (if Message res = [] then [] else [(''message'', quote (Message res))])
           in case Data res of
                None \<Rightarrow> Inr (json_object (fc @ fm))
              | Some d \<Rightarrow>
                  (case val d of
                     Inl e \<Rightarrow> Inl e
                   | Inr v \<Rightarrow> Inr (json_object (fc @ fm @ [(''data'', v)])))))"

section \<open>handlers.go\<close>

record ServiceHttp =
  ErrorCodeMapper :: "(kratos_Error option \<Rightarrow> int) option"
  errorCounter :: "counter_vec option"
  requestCounter :: "counter_vec option"
  requestDuration :: "histogram_vec option"
  requestSize :: "histogram_vec option"
  responseSize :: "histogram_vec option"
  inflightRequests :: "gauge_vec option"

text \<open>
  What an HTTP handler of the package can change: the response writer, the metric vectors
  held by the service, and the log.
\<close>

record http_state =
  writer :: ResponseWriter
  service :: ServiceHttp
  logged :: "log_entry list"

definition defaultErrorCode :: "kratos_Error option \<Rightarrow> int" where
  "defaultErrorCode se =
     (case se of
        None \<Rightarrow> 500
      | Some e \<Rightarrow> if Status_Code e \<noteq> 0 then sint (Status_Code e) else 500)"

definition errorCounter_Inc :: "string list \<Rightarrow> ServiceHttp \<Rightarrow> ServiceHttp" where
  "errorCounter_Inc lvs h =
     (case errorCounter h of
        None \<Rightarrow> h
      | Some c \<Rightarrow> h\<lparr>errorCounter := Some (Inc lvs c)\<rparr>)"

definition notFoundHandler :: "'d libs \<Rightarrow> Request \<Rightarrow> http_state \<Rightarrow> http_state" where
  \<open>notFoundHandler lib r st0 =
     (let st1 = st0\<lparr>writer :=
                  WriteHeader 404 (Header_Set ''Content-Type'' ''application/json'' (writer st0))\<rparr>;
          record_404 = (\<lambda>st.
             st\<lparr>service := errorCounter_Inc [Method r, URL_Path r, ''not_found''] (service st),
                logged := Warnf (''404 not found: '' @ Method r @ '' '' @ URL_Path r) (logged st)\<rparr>)
      in case json_Marshal lib (CodeMap 404) of
           Inr data \<Rightarrow>
             (case Write data (writer st1) of
                (w', Some writeErr) \<Rightarrow> st1\<lparr>writer := w'\<rparr>
              | (w', None) \<Rightarrow> record_404 (st1\<lparr>writer := w'\<rparr>))
         | Inl err \<Rightarrow>
             (let st2 = st1\<lparr>logged :=
                          Errorf (''Failed to marshal 404 response: '' @ Error err) (logged st1)\<rparr>
              in case Write ''{"code": 404}'' (writer st2) of
                   (w', Some writeErr) \<Rightarrow> st2\<lparr>writer := w'\<rparr>
                 | (w', None) \<Rightarrow> record_404 (st2\<lparr>writer := w'\<rparr>)))\<close>

definition methodNotAllowedHandler :: "'d libs \<Rightarrow> Request \<Rightarrow> http_state \<Rightarrow> http_state" where
  \<open>methodNotAllowedHandler lib r st0 =
     (let st1 = st0\<lparr>writer :=
                  WriteHeader 405 (Header_Set ''Content-Type'' ''application/json'' (writer st0))\<rparr>;
          record_405 = (\<lambda>st.
             st\<lparr>service := errorCounter_Inc [Method r, URL_Path r, ''method_not_allowed''] (service st),
                logged := Warnf (''405 method not allowed: '' @ Method r @ '' '' @ URL_Path r)
                            (logged st)\<rparr>)
      in case json_Marshal lib (CodeMap 405) of
           Inr data \<Rightarrow>
             (case Write data (writer st1) of
                (w', Some writeErr) \<Rightarrow> st1\<lparr>writer := w'\<rparr>
              | (w', None) \<Rightarrow> record_405 (st1\<lparr>writer := w'\<rparr>))
         | Inl err \<Rightarrow>
             (let st2 = st1\<lparr>logged :=
                          Errorf (''Failed to marshal 405 response: '' @ Error err) (logged st1)\<rparr>
              in case Write ''{"code": 405}'' (writer st2) of
                   (w', Some writeErr) \<Rightarrow> st2\<lparr>writer := w'\<rparr>
                 | (w', None) \<Rightarrow> record_405 (st2\<lparr>writer := w'\<rparr>)))\<close>

text \<open>
  \<open>enhancedErrorEncoder\<close>: the code is the mapper's result when a mapper is set, the
  default code otherwise; the body is the marshalled one-entry map, or the literal
  fallback when marshalling fails.
\<close>

definition enhancedErrorEncoder ::
  "'d libs \<Rightarrow> Request \<Rightarrow> go_error option \<Rightarrow> http_state \<Rightarrow> http_state" where
  \<open>enhancedErrorEncoder lib r err st0 =
     (let se = FromError lib err;
          code = (case ErrorCodeMapper (service st0) of
                    Some mapper \<Rightarrow> mapper se
                  | None \<Rightarrow> defaultErrorCode se);
          st1 = st0\<lparr>service :=
                  errorCounter_Inc [Method r, URL_Path r, ''server_error''] (service st0)\<rparr>;
          st2 = st1\<lparr>writer :=
                  WriteHeader 200 (Header_Set ''Content-Type'' ''application/json'' (writer st1))\<rparr>;
          (data, st3) = (case json_Marshal lib (CodeMap code) of
                           Inr d \<Rightarrow> (d, st2)
                         | Inl marshalErr \<Rightarrow>
                             (''{"code": 500}'',
                              st2\<lparr>logged := Errorf (''Failed to encode error response: ''
                                                      @ Error marshalErr) (logged st2)\<rparr>))
      in st3\<lparr>writer := fst (Write data (writer st3))\<rparr>)\<close>

section \<open>encoder.go\<close>



section \<open>The tracing and logging middleware\<close>

subsection \<open>Constants\<close>

definition maxBodySize :: nat where
  "maxBodySize = 1024 * 1024"

definition contentTypeKey :: string where
  "contentTypeKey = ''Content-Type''"

definition jsonContentType :: string where
  "jsonContentType = ''application/json''"

definition traceIDNone :: string where
  "traceIDNone = ''none''"

definition spanIDNone :: string where
  "spanIDNone = ''none''"

subsection \<open>Transport headers, span contexts, execution contexts\<close>

text \<open>
  A \<open>transport.Header\<close> is a list of key/value pairs with \<open>Get\<close> (the empty string for
  a missing key), \<open>Set\<close> and \<open>Keys\<close>. A nil \<open>transport.Header\<close> is \<open>None\<close> of
  \<open>transport_Header option\<close>; calling a method on it panics.
\<close>

type_synonym transport_Header = "(string \<times> string) list"

definition transport_Header_Get :: "transport_Header \<Rightarrow> string \<Rightarrow> string" where
  "transport_Header_Get hdr k = (case map_of hdr k of None \<Rightarrow> [] | Some v \<Rightarrow> v)"

definition transport_Header_Set :: "string \<Rightarrow> string \<Rightarrow> transport_Header \<Rightarrow> transport_Header" where
  "transport_Header_Set k v hdr = (k, v) # filter (\<lambda>p. fst p \<noteq> k) hdr"

definition transport_Header_Keys :: "transport_Header \<Rightarrow> string list" where
  "transport_Header_Keys hdr = remdups (map fst hdr)"

text \<open>
  \<open>trace.SpanContext\<close> of OpenTelemetry: a 16-byte trace id and an 8-byte span id, valid
  when both are non-zero, printed as 32 and 16 lower-case hexadecimal digits.
\<close>

record SpanContext =
  TraceID :: "128 word"
  SpanID :: "64 word"
  TraceFlags :: "8 word"
  Remote :: bool

definition IsValid :: "SpanContext \<Rightarrow> bool" where
  "IsValid sc = (TraceID sc \<noteq> 0 \<and> SpanID sc \<noteq> 0)"

definition hexdigit :: "nat \<Rightarrow> char" where
  "hexdigit d = ''0123456789abcdef'' ! d"

primrec hex :: "nat \<Rightarrow> nat \<Rightarrow> string" where
  "hex 0 n = []"
| "hex (Suc k) n = hex k (n div 16) @ [hexdigit (n mod 16)]"

definition TraceID_String :: "128 word \<Rightarrow> string" where
  "TraceID_String t = hex 32 (unat t)"

definition SpanID_String :: "64 word \<Rightarrow> string" where
  "SpanID_String s = hex 16 (unat s)"

text \<open>
  The transporter of a request: the generic \<open>transport.Transporter\<close> interface gives the
  endpoint, the operation and the request header. \<open>Request_Method\<close> is the method of the
  underlying HTTP request, which the interface does not expose and the middleware never
  reads. The reply header is mutable and lives in the state below.
\<close>

record Transporter =
  Endpoint :: string
  Operation :: string
  RequestHeader :: "transport_Header option"
  Request_Method :: string

text \<open>
  The part of a \<open>context.Context\<close> the middleware reads: \<open>ctx.Err()\<close>, the transporter
  found by \<open>transport.FromServerContext\<close> (\<open>None\<close> when \<open>ok\<close> is false) and the span
  context found by \<open>trace.SpanContextFromContext\<close> (all zero when no span is bound).
\<close>

record Context =
  Err :: "go_error option"
  FromServerContext :: "Transporter option"
  SpanContextFromContext :: SpanContext

subsection \<open>The W3C trace-context propagator\<close>

text \<open>
  \<open>tracePropagator\<close> is OpenTelemetry's composite of \<open>TraceContext\<close> and \<open>Baggage\<close>
  (neither is part of this repository). \<open>TraceContext.Extract\<close> reads the
  \<open>traceparent\<close> header; when it carries a valid span context, the returned context is
  bound to that remote span context, otherwise the context is returned as it is.
  \<open>Baggage\<close> only adds baggage entries, which nothing in this package reads.
  The parser below accepts the version-00 format
  \<open>00-<32 hex>-<16 hex>-<2 hex>\<close> with lower-case digits and non-zero ids; any other
  header value is taken as carrying no span context.
\<close>

definition hexval :: "char \<Rightarrow> nat option" where
  "hexval c = map_of (zip ''0123456789abcdef'' [0, 1, 2, 3, 4, 5, 6, 7, 8, 9, 10, 11, 12, 13, 14, 15]) c"

fun unhex :: "nat \<Rightarrow> string \<Rightarrow> nat option" where
  "unhex acc [] = Some acc"
| "unhex acc (c # cs) = (case hexval c of None \<Rightarrow> None | Some d \<Rightarrow> unhex (16 * acc + d) cs)"

fun split_on :: "char \<Rightarrow> string \<Rightarrow> string list" where
  "split_on sep [] = [[]]"
| "split_on sep (c # cs) =
     (if c = sep then [] # split_on sep cs
      else (case split_on sep cs of
              [] \<Rightarrow> [[c]]
            | p # ps \<Rightarrow> (c # p) # ps))"

definition parse_traceparent :: "string \<Rightarrow> SpanContext option" where
  "parse_traceparent h =
     (case split_on CHR ''-'' h of
        [v, t, s, f] \<Rightarrow>
          (if length v = 2 \<and> length t = 32 \<and> length s = 16 \<and> length f = 2
           then (case (unhex 0 v, unhex 0 t, unhex 0 s, unhex 0 f) of
                   (Some vn, Some tn, Some sn, Some fn) \<Rightarrow>
                     (if vn = 0 \<and> tn \<noteq> 0 \<and> sn \<noteq> 0
                      then Some \<lparr>TraceID = of_nat tn, SpanID = of_nat sn,
                                 TraceFlags = of_nat (fn mod 2), Remote = True\<rparr>
                      else None)
                 | _ \<Rightarrow> None)
           else None)
      | _ \<Rightarrow> None)"

definition tracePropagator_Extract :: "Context \<Rightarrow> transport_Header \<Rightarrow> Context" where
  "tracePropagator_Extract ctx carrier =
     (case parse_traceparent (transport_Header_Get carrier ''traceparent'') of
        None \<Rightarrow> ctx
      | Some sc \<Rightarrow> ctx\<lparr>SpanContextFromContext := sc\<rparr>)"

subsection \<open>Helpers of the middleware\<close>

definition extractTraceContextFromRequest :: "Context \<Rightarrow> transport_Header option \<Rightarrow> Context" where
  "extractTraceContextFromRequest ctx reqHeader =
     (case reqHeader of
        None \<Rightarrow> ctx
      | Some hdr \<Rightarrow> tracePropagator_Extract ctx hdr)"

definition traceIDAndSpanIDFromSpan :: "SpanContext \<Rightarrow> string \<times> string" where
  "traceIDAndSpanIDFromSpan span =
     (if IsValid span then (TraceID_String (TraceID span), SpanID_String (SpanID span))
      else (traceIDNone, spanIDNone))"

fun getClientIP_loop :: "transport_Header \<Rightarrow> string list \<Rightarrow> string" where
  "getClientIP_loop hdr [] = ''unknown''"
| "getClientIP_loop hdr (key # keys) =
     (let ip = transport_Header_Get hdr key in if ip \<noteq> [] then ip else getClientIP_loop hdr keys)"

definition getClientIP :: "transport_Header \<Rightarrow> string" where
  "getClientIP hdr = getClientIP_loop hdr [''X-Forwarded-For'', ''X-Real-IP'']"

text \<open>
  Request and reply values are \<open>interface{}\<close>: nil, a \<open>proto.Message\<close>, or a value of
  another type. The protobuf encoders and the \<open>fmt\<close> verbs applied to values the package
  does not own are parameters: \<open>protojson.Marshal\<close>, \<open>proto.Marshal\<close>, \<open>%#v\<close> of a
  request or reply, \<open>%#v\<close> of a \<open>map[string]string\<close> and \<open>%v\<close> of a \<open>time.Duration\<close>.
\<close>

datatype ('m, 'o) any = AnyNil | ProtoMessage 'm | Other 'o

record ('m, 'o) mw_libs =
  protojson_Marshal :: "'m \<Rightarrow> go_error + bytes"
  proto_Marshal :: "'m \<Rightarrow> go_error + bytes"
  Sprintf_any :: "('m, 'o) any \<Rightarrow> string"
  Sprintf_map :: "(string \<rightharpoonup> string) \<Rightarrow> string"
  Sprintf_Duration :: "nat \<Rightarrow> string"

definition safeProtoToJSON :: "('m, 'o) mw_libs \<Rightarrow> 'm \<Rightarrow> go_error + string" where
  "safeProtoToJSON lib msg =
     (case protojson_Marshal lib msg of
        Inl err \<Rightarrow> Inl err
      | Inr bs \<Rightarrow>
          (if length bs > maxBodySize
           then Inr (''<body too large, size: '' @ Itoa (int (length bs)) @ '' bytes>'')
           else Inr bs))"

subsection \<open>State, handlers and outcomes\<close>

text \<open>
  What a handler invocation can change: the reply header of the transporter, the metric
  vectors of the service the middleware was built with (a nil \<open>*ServiceHttp\<close> is
  \<open>None\<close>), the log, and the clock (\<open>time.Now()\<close>, in nanoseconds).
  A handler returns \<open>(reply, err)\<close> or panics.
\<close>

record mw_state =
  ReplyHeader :: transport_Header
  svc :: "ServiceHttp option"
  logs :: "log_entry list"
  now :: nat

datatype ('m, 'o) outcome = Return "('m, 'o) any" "go_error option" | Panic string

type_synonym ('m, 'o) Handler =
  "Context \<Rightarrow> ('m, 'o) any \<Rightarrow> mw_state \<Rightarrow> ('m, 'o) outcome \<times> mw_state"

text \<open>Lines 123-132 and 146-155: the text logged for a request or response value.\<close>

definition body_text :: "('m, 'o) mw_libs \<Rightarrow> string \<Rightarrow> ('m, 'o) any \<Rightarrow> string" where
  "body_text lib what v =
     (case v of
        ProtoMessage msg \<Rightarrow>
          (case safeProtoToJSON lib msg of
             Inr b \<Rightarrow> b
           | Inl jsonErr \<Rightarrow> ''<failed to marshal '' @ what @ '': '' @ Error jsonErr @ ''>'')
      | _ \<Rightarrow> Sprintf_any lib v)"

text \<open>Lines 135-138 and 157-160: the loop copying a header into a \<open>map[string]string\<close>.\<close>

definition collect_headers :: "transport_Header \<Rightarrow> (string \<rightharpoonup> string)" where
  "collect_headers hdr =
     fold (\<lambda>key m. m(key \<mapsto> transport_Header_Get hdr key)) (transport_Header_Keys hdr) Map.empty"

definition fmt_err :: "go_error option \<Rightarrow> string" where
  "fmt_err err = (case err of None \<Rightarrow> ''<nil>'' | Some e \<Rightarrow> Error e)"

text \<open>Lines 122-142: the request log entry (\<open>httpRequestLogFormat\<close>).\<close>

definition log_request ::
  "('m, 'o) mw_libs \<Rightarrow> Transporter \<Rightarrow> transport_Header \<Rightarrow> ('m, 'o) any \<Rightarrow> mw_state \<Rightarrow> mw_state" where
  "log_request lib tr reqHdr req s =
     (let endpoint = Endpoint tr;
          clientIP = getClientIP reqHdr;
          api = Operation tr;
          reqBody = body_text lib ''request'' req;
          headersStr = Sprintf_map lib (collect_headers reqHdr)
      in s\<lparr>logs := Infof (''[HTTP Request] api='' @ api @ '' endpoint='' @ endpoint
                           @ '' client-ip='' @ clientIP @ '' headers='' @ headersStr
                           @ '' body='' @ reqBody) (logs s)\<rparr>)"

text \<open>Lines 146-170: the response log entry (\<open>httpResponseLogFormat\<close>), at error level
  when the handler returned an error.\<close>

definition log_response ::
  "('m, 'o) mw_libs \<Rightarrow> Transporter \<Rightarrow> nat \<Rightarrow> ('m, 'o) any \<Rightarrow> go_error option \<Rightarrow> mw_state \<Rightarrow> mw_state" where
  "log_response lib tr start reply err s =
     (let respBody = body_text lib ''response'' reply;
          respHeadersStr = Sprintf_map lib (collect_headers (ReplyHeader s));
          duration = now s - start;
          msg = ''[HTTP Response] api='' @ Operation tr @ '' endpoint='' @ Endpoint tr
                @ '' duration='' @ Sprintf_Duration lib duration @ '' error='' @ fmt_err err
                @ '' headers='' @ respHeadersStr @ '' body='' @ respBody
      in if err \<noteq> None then s\<lparr>logs := Errorf msg (logs s)\<rparr>
         else s\<lparr>logs := Infof msg (logs s)\<rparr>)"

text \<open>Lines 113-120: the deferred function; \<open>reply\<close> is the named result at exit.\<close>

definition set_trace_headers :: "string \<Rightarrow> string \<Rightarrow> ('m, 'o) any \<Rightarrow> mw_state \<Rightarrow> mw_state" where
  "set_trace_headers traceID spanID reply s =
     (let h1 = transport_Header_Set ''Trace-Id'' traceID (ReplyHeader s);
          h2 = transport_Header_Set ''Span-Id'' spanID h1
      in case reply of
           ProtoMessage _ \<Rightarrow> s\<lparr>ReplyHeader := transport_Header_Set contentTypeKey jsonContentType h2\<rparr>
         | _ \<Rightarrow> s\<lparr>ReplyHeader := h2\<rparr>)"

text \<open>
  \<open>TracerLogPack\<close>. With a nil request header, \<open>getClientIP\<close> calls \<open>Get\<close> on a nil
  interface (line 110) and panics before the deferred function is registered (line 113).
  When the handler panics, the deferred function runs with \<open>reply\<close> still nil.
\<close>

definition TracerLogPack :: "('m, 'o) mw_libs \<Rightarrow> ('m, 'o) Handler \<Rightarrow> ('m, 'o) Handler" where
  "TracerLogPack lib handler ctx req s0 =
     (case Err ctx of
        Some e \<Rightarrow> (Return AnyNil (Some e), s0)
      | None \<Rightarrow>
          (let start = now s0
           in case FromServerContext ctx of
                None \<Rightarrow>
                  handler ctx req
                    (s0\<lparr>logs := Warnf ''Failed to get transport from context, proceeding without tracing''
                                   (logs s0)\<rparr>)
              | Some tr \<Rightarrow>
                  (let ctx1 = extractTraceContextFromRequest ctx (RequestHeader tr);
                       span = SpanContextFromContext ctx1;
                       (traceID, spanID) = traceIDAndSpanIDFromSpan span
                   in case RequestHeader tr of
                        None \<Rightarrow> (Panic ''invalid memory address or nil pointer dereference'', s0)
                      | Some reqHdr \<Rightarrow>
                          (let s1 = log_request lib tr reqHdr req s0
                           in case handler ctx1 req s1 of
                                (Panic p, s2) \<Rightarrow>
                                  (Panic p, set_trace_headers traceID spanID (AnyNil :: ('m, 'o) any) s2)
                              | (Return reply err, s2) \<Rightarrow>
                                  (Return reply err,
                                   set_trace_headers traceID spanID reply
                                     (log_response lib tr start reply err s2))))))"

subsection \<open>The metrics-enabled variant\<close>

definition inflight_Inc :: "string \<Rightarrow> ServiceHttp \<Rightarrow> ServiceHttp" where
  "inflight_Inc api h =
     (case inflightRequests h of
        None \<Rightarrow> h
      | Some g \<Rightarrow> h\<lparr>inflightRequests := Some (gauge_Inc [api] g)\<rparr>)"

definition inflight_Dec :: "string \<Rightarrow> ServiceHttp \<Rightarrow> ServiceHttp" where
  "inflight_Dec api h =
     (case inflightRequests h of
        None \<Rightarrow> h
      | Some g \<Rightarrow> h\<lparr>inflightRequests := Some (gauge_Dec [api] g)\<rparr>)"

text \<open>Lines 236-242: the request size histogram.\<close>

definition observe_requestSize ::
  "('m, 'o) mw_libs \<Rightarrow> string \<Rightarrow> ('m, 'o) any \<Rightarrow> ServiceHttp \<Rightarrow> ServiceHttp" where
  "observe_requestSize lib api req h =
     (case requestSize h of
        None \<Rightarrow> h
      | Some hv \<Rightarrow>
          (case req of
             ProtoMessage msg \<Rightarrow>
               (case proto_Marshal lib msg of
                  Inr data \<Rightarrow> h\<lparr>requestSize := Some (Observe [''POST'', api] (length data) hv)\<rparr>
                | Inl e \<Rightarrow> h)
           | _ \<Rightarrow> h))"

text \<open>
  Lines 277-305: duration, request count, response size and error count. The histogram
  keeps the duration in nanoseconds where the source observes \<open>duration.Seconds()\<close>.
\<close>

definition record_metrics ::
  "('m, 'o) mw_libs \<Rightarrow> string \<Rightarrow> nat \<Rightarrow> ('m, 'o) any \<Rightarrow> go_error option \<Rightarrow> ServiceHttp \<Rightarrow> ServiceHttp" where
  "record_metrics lib api duration reply err h =
     (let h1 = (case requestDuration h of
                  None \<Rightarrow> h
                | Some hv \<Rightarrow> h\<lparr>requestDuration := Some (Observe [''POST'', api] duration hv)\<rparr>);
          h2 = (case requestCounter h1 of
                  None \<Rightarrow> h1
                | Some c \<Rightarrow>
                    (let status = (if err \<noteq> None then ''error'' else ''success'')
                     in h1\<lparr>requestCounter := Some (Inc [''POST'', api, status] c)\<rparr>));
          h3 = (case responseSize h2 of
                  None \<Rightarrow> h2
                | Some hv \<Rightarrow>
                    (case reply of
                       ProtoMessage msg \<Rightarrow>
                         (case proto_Marshal lib msg of
                            Inr data \<Rightarrow>
                              h2\<lparr>responseSize := Some (Observe [''POST'', api] (length data) hv)\<rparr>
                          | Inl marshalErr \<Rightarrow> h2)
                     | _ \<Rightarrow> h2))
      in if err \<noteq> None
         then (case errorCounter h3 of
                 None \<Rightarrow> h3
               | Some c \<Rightarrow> h3\<lparr>errorCounter := Some (Inc [''POST'', api, ''tracer_error''] c)\<rparr>)
         else h3)"

text \<open>
  Lines 230-242, before the handler: the in-flight gauge is incremented and its decrement
  deferred when the service and the gauge are non-nil (the flag says whether the
  decrement was registered); then the request size is observed.
\<close>

definition metrics_before ::
  "('m, 'o) mw_libs \<Rightarrow> string \<Rightarrow> ('m, 'o) any \<Rightarrow> mw_state \<Rightarrow> bool \<times> mw_state" where
  "metrics_before lib api req s =
     (case svc s of
        None \<Rightarrow> (False, s)
      | Some h \<Rightarrow>
          (inflightRequests h \<noteq> None,
           s\<lparr>svc := Some (observe_requestSize lib api req (inflight_Inc api h))\<rparr>))"

definition deferred_Dec :: "bool \<Rightarrow> string \<Rightarrow> mw_state \<Rightarrow> mw_state" where
  "deferred_Dec registered api s =
     (if registered then s\<lparr>svc := map_option (inflight_Dec api) (svc s)\<rparr> else s)"

definition TracerLogPackWithMetrics ::
  "('m, 'o) mw_libs \<Rightarrow> ('m, 'o) Handler \<Rightarrow> ('m, 'o) Handler" where
  "TracerLogPackWithMetrics lib handler ctx req s0 =
     (case Err ctx of
        Some e \<Rightarrow> (Return AnyNil (Some e), s0)
      | None \<Rightarrow>
          (let start = now s0
           in case FromServerContext ctx of
                None \<Rightarrow>
                  handler ctx req
                    (s0\<lparr>logs := Warnf ''Failed to get transport from context, proceeding without tracing''
                                   (logs s0)\<rparr>)
              | Some tr \<Rightarrow>
                  (let ctx1 = extractTraceContextFromRequest ctx (RequestHeader tr);
                       span = SpanContextFromContext ctx1;
                       (traceID, spanID) = traceIDAndSpanIDFromSpan span
                   in case RequestHeader tr of
                        None \<Rightarrow> (Panic ''invalid memory address or nil pointer dereference'', s0)
                      | Some reqHdr \<Rightarrow>
                          (let api = Operation tr;
                               (registered, s1) =
                                  metrics_before lib api req (log_request lib tr reqHdr req s0)
                           in case handler ctx1 req s1 of
                                (Panic p, s2) \<Rightarrow>
                                  (Panic p,
                                   set_trace_headers traceID spanID (AnyNil :: ('m, 'o) any)
                                     (deferred_Dec registered api s2))
                              | (Return reply err, s2) \<Rightarrow>
                                  (let s3 = log_response lib tr start reply err s2;
                                       s4 = s3\<lparr>svc := map_option
                                               (record_metrics lib api (now s2 - start) reply err)
                                               (svc s3)\<rparr>
                                   in (Return reply err,
                                       set_trace_headers traceID spanID reply
                                         (deferred_Dec registered api s4)))))))"

section \<open>Concrete requests, services and libraries\<close>

text \<open>
  Inputs at which the theorems below are evaluated. The example payloads are a text and a
  Go channel, which \<open>encoding/json\<close> refuses; \<open>ex_quote\<close> quotes a text that needs no
  escaping. \<open>FromError_code0\<close> stands for errors whose Kratos code is 0.
  \<open>failing_codec\<close> is a negotiated codec whose \<open>Marshal\<close> returns an error for the
  envelope; \<open>failing_json_libs\<close> has a \<open>json.Marshal\<close> that returns an error.
\<close>

datatype payload = Text string | Channel

definition ex_quote :: "string \<Rightarrow> bytes" where
  \<open>ex_quote s = ''"'' @ s @ ''"''\<close>

fun payload_json :: "payload \<Rightarrow> go_error + bytes" where
  "payload_json (Text s) = Inr (ex_quote s)"
| "payload_json Channel = Inl (GoError ''json: unsupported type: chan int'')"

definition FromError_code0 :: "go_error option \<Rightarrow> kratos_Error option" where
  "FromError_code0 err =
     (case err of
        None \<Rightarrow> None
      | Some e \<Rightarrow> Some \<lparr>Status_Code = 0, Status_Reason = [], Status_Message = Error e\<rparr>)"

definition ex_libs :: "payload libs" where
  "ex_libs = \<lparr>json_Marshal = encoding_json_Marshal ex_quote payload_json,
              CodecForRequest = (\<lambda>_. (None, False)),
              FromError = FromError_code0\<rparr>"




definition fresh_writer :: ResponseWriter where
  "fresh_writer = \<lparr>header = Map.empty, status = None, body = [], write_err = None\<rparr>"

definition ex_request :: Request where
  "ex_request = \<lparr>Method = ''GET'', URL_Path = ''/unknown''\<rparr>"

definition ex_service :: ServiceHttp where
  "ex_service = \<lparr>ErrorCodeMapper = None, errorCounter = Some (\<lambda>_. 0),
     requestCounter = Some (\<lambda>_. 0), requestDuration = Some (\<lambda>_. []),
     requestSize = Some (\<lambda>_. []), responseSize = Some (\<lambda>_. []),
     inflightRequests = Some (\<lambda>_. 0)\<rparr>"

definition ex_state :: http_state where
  "ex_state = \<lparr>writer = fresh_writer, service = ex_service, logged = []\<rparr>"

definition mapped_state :: http_state where
  "mapped_state = ex_state\<lparr>service := ex_service\<lparr>ErrorCodeMapper := Some (\<lambda>_. 123456)\<rparr>\<rparr>"

text \<open>
  Inputs for the middleware. A protobuf message is stood for by the number of bytes of its
  encodings; \<open>broken_mw_libs\<close> is a \<open>protojson\<close> that fails. \<open>ex_ctx\<close> is a live context
  with a transporter and no span; \<open>traced_ctx\<close> already carries the valid span
  \<open>server_span\<close> (as a tracing middleware upstream leaves it) while the request still
  has the caller's \<open>traceparent\<close> header.
\<close>

definition ex_mw_libs :: "(nat, string) mw_libs" where
  "ex_mw_libs = \<lparr>protojson_Marshal = (\<lambda>n. Inr (replicate n CHR ''x'')),
                 proto_Marshal = (\<lambda>n. Inr (replicate n CHR ''x'')),
                 Sprintf_any = (\<lambda>v. case v of AnyNil \<Rightarrow> ''<nil>''
                                        | ProtoMessage n \<Rightarrow> ''&message{}''
                                        | Other s \<Rightarrow> s),
                 Sprintf_map = (\<lambda>m. ''map[string]string{}''),
                 Sprintf_Duration = (\<lambda>d. Itoa (int d) @ ''ns'')\<rparr>"

definition broken_mw_libs :: "(nat, string) mw_libs" where
  "broken_mw_libs = ex_mw_libs\<lparr>protojson_Marshal := (\<lambda>n. Inl (GoError ''proto: invalid UTF-8''))\<rparr>"

definition ex_transporter :: Transporter where
  "ex_transporter = \<lparr>Endpoint = ''http://127.0.0.1:8000'',
                     Operation = ''/helloworld.Greeter/SayHello'',
                     RequestHeader = Some [], Request_Method = ''GET''\<rparr>"

definition no_span :: SpanContext where
  "no_span = \<lparr>TraceID = 0, SpanID = 0, TraceFlags = 0, Remote = False\<rparr>"

definition ex_ctx :: Context where
  "ex_ctx = \<lparr>Err = None, FromServerContext = Some ex_transporter, SpanContextFromContext = no_span\<rparr>"

definition cancelled_ctx :: Context where
  "cancelled_ctx = ex_ctx\<lparr>Err := Some (GoError ''context canceled'')\<rparr>"

definition mw_state0 :: mw_state where
  "mw_state0 = \<lparr>ReplyHeader = [], svc = Some ex_service, logs = [], now = 0\<rparr>"

definition failing_handler :: "(nat, string) Handler" where
  "failing_handler ctx req s = (Return AnyNil (Some (GoError ''boom'')), s\<lparr>now := now s + 5\<rparr>)"

definition echo_handler :: "(nat, string) Handler" where
  "echo_handler ctx req s = (Return req None, s\<lparr>now := now s + 5\<rparr>)"

text \<open>The value of the request counter at a label tuple.\<close>

definition requestCounter_value :: "mw_state \<Rightarrow> string list \<Rightarrow> nat option" where
  "requestCounter_value s lvs =
     (case svc s of
        None \<Rightarrow> None
      | Some h \<Rightarrow> (case requestCounter h of None \<Rightarrow> None | Some c \<Rightarrow> Some (c lvs)))"

definition traced_transporter :: Transporter where
  "traced_transporter = ex_transporter\<lparr>RequestHeader :=
      Some [(''traceparent'', ''00-4bf92f3577b34da6a3ce929d0e0e4736-53995c3f42cd8ad8-01'')]\<rparr>"

definition server_span :: SpanContext where
  "server_span = \<lparr>TraceID = 0x4bf92f3577b34da6a3ce929d0e0e4736, SpanID = 0x00f067aa0ba902b7,
                   TraceFlags = 1, Remote = False\<rparr>"

definition traced_ctx :: Context where
  "traced_ctx = \<lparr>Err = None, FromServerContext = Some traced_transporter,
                 SpanContextFromContext = server_span\<rparr>"

text \<open>The warnings of a log.\<close>

definition warnings :: "log_entry list \<Rightarrow> log_entry list" where
  "warnings lg = filter (\<lambda>e. fst e = LevelWarn) lg"

section \<open>Properties of the response writer and the encoders\<close>

lemma json_object_code: \<open>json_object [(''code'', v)] = ''{"code":'' @ v @ ''}''\<close>
  by (simp add: json_object_def)

lemma Write_ok:
  "write_err w = None \<Longrightarrow> Write d w = ((WriteHeader 200 w)\<lparr>body := body w @ d\<rparr>, None)"
  by (simp add: Write_def WriteHeader_def Let_def split: option.splits)

lemma Write_fail: "write_err w = Some e \<Longrightarrow> Write d w = (WriteHeader 200 w, Some e)"
  by (simp add: Write_def WriteHeader_def Let_def split: option.splits)

lemma WriteHeader_simps [simp]:
  "body (WriteHeader c w) = body w" "write_err (WriteHeader c w) = write_err w"
  "header (WriteHeader c w) = header w"
  "status (WriteHeader c w) = (case status w of None \<Rightarrow> Some c | Some s \<Rightarrow> Some s)"
  by (simp_all add: WriteHeader_def split: option.splits)

lemma Header_Set_simps [simp]:
  "body (Header_Set k v w) = body w" "write_err (Header_Set k v w) = write_err w"
  "status (Header_Set k v w) = status w"
  "header (Header_Set k v w) = (header w)(k \<mapsto> v)"
  by (simp_all add: Header_Set_def)

lemma Write_fst_simps [simp]:
  "status (fst (Write d w)) = (case status w of None \<Rightarrow> Some 200 | Some s \<Rightarrow> Some s)"
  "body (fst (Write d w)) = (case write_err w of None \<Rightarrow> body w @ d | Some e \<Rightarrow> body w)"
  "write_err (fst (Write d w)) = write_err w"
  by (simp_all add: Write_def Let_def split: option.splits)

lemma warnings_simps [simp]:
  "warnings (Warnf m lg) = warnings lg @ [(LevelWarn, m)]"
  "warnings (Errorf m lg) = warnings lg"
  "warnings (Infof m lg) = warnings lg"
  by (simp_all add: warnings_def Warnf_def Errorf_def Infof_def)



lemma decimal_123456: \<open>decimal 123456 = ''123456''\<close>
  by (simp add: decimal.simps digit_def)





text \<open>
  C1. \<open>enhancedErrorEncoder\<close>, with \<open>encoding/json\<close> as the marshaller and a writer that
  accepts the body: the code in the body is the mapper's result as it is when a mapper is
  configured; otherwise it is the Kratos error's \<open>Code\<close> when that is non-zero, and 500
  when it is zero or the error object is nil.
\<close>

theorem enhancedErrorEncoder_code:
  assumes "write_err (writer st) = None"
  shows \<open>body (writer (enhancedErrorEncoder
                        (lib\<lparr>json_Marshal := encoding_json_Marshal quote val\<rparr>) r err st))
     = body (writer st) @ ''{"code":''
       @ Itoa (case ErrorCodeMapper (service st) of
                 Some mapper \<Rightarrow> mapper (FromError lib err)
               | None \<Rightarrow> (case FromError lib err of
                            None \<Rightarrow> 500
                          | Some e \<Rightarrow> if Status_Code e \<noteq> 0 then sint (Status_Code e) else 500))
       @ ''}''\<close>
  using assms
  by (simp add: enhancedErrorEncoder_def encoding_json_Marshal_def json_object_code Write_ok
        defaultErrorCode_def Let_def split: option.splits)

theorem enhancedErrorEncoder_code_witness:
  \<open>write_err (writer mapped_state) = None
   \<and> body (writer (enhancedErrorEncoder
                     (ex_libs\<lparr>json_Marshal := encoding_json_Marshal ex_quote payload_json\<rparr>)
                     ex_request (Some (GoError ''boom'')) mapped_state))
       = ''{"code":123456}''\<close>
  using enhancedErrorEncoder_code [where st = mapped_state and lib = ex_libs
          and quote = ex_quote and val = payload_json and r = ex_request
          and err = "Some (GoError ''boom'')"]
  by (simp add: mapped_state_def ex_state_def fresh_writer_def ex_service_def Itoa_def
        decimal_123456)







text \<open>
  C9. In \<open>notFoundHandler\<close> and \<open>methodNotAllowedHandler\<close> the error counter labelled
  (method, path, "not_found" / "method_not_allowed") is incremented and the warning is
  logged exactly when the write of the body succeeded; when the write fails the handler
  returns with the counters unchanged and no warning added.
\<close>

theorem fallback_handlers_record_only_after_write:
  \<open>service (notFoundHandler lib r st) =
      (if write_err (writer st) = None
       then errorCounter_Inc [Method r, URL_Path r, ''not_found''] (service st)
       else service st)
   \<and> warnings (logged (notFoundHandler lib r st)) =
      warnings (logged st) @
      (if write_err (writer st) = None
       then [(LevelWarn, ''404 not found: '' @ Method r @ '' '' @ URL_Path r)] else [])
   \<and> service (methodNotAllowedHandler lib r st) =
      (if write_err (writer st) = None
       then errorCounter_Inc [Method r, URL_Path r, ''method_not_allowed''] (service st)
       else service st)
   \<and> warnings (logged (methodNotAllowedHandler lib r st)) =
      warnings (logged st) @
      (if write_err (writer st) = None
       then [(LevelWarn, ''405 method not allowed: '' @ Method r @ '' '' @ URL_Path r)] else [])\<close>
proof (cases "write_err (writer st)")
  case None
  then show ?thesis
    by (simp add: notFoundHandler_def methodNotAllowedHandler_def Write_ok Let_def
          split: sum.splits)
next
  case (Some e)
  then show ?thesis
    by (simp add: notFoundHandler_def methodNotAllowedHandler_def Write_fail Let_def
          split: sum.splits)
qed

theorem fallback_handlers_record_only_after_write_witness:
  \<open>service (notFoundHandler ex_libs ex_request
              (ex_state\<lparr>writer := fresh_writer\<lparr>write_err := Some (GoError ''broken pipe'')\<rparr>\<rparr>))
     = ex_service
   \<and> warnings (logged (notFoundHandler ex_libs ex_request
              (ex_state\<lparr>writer := fresh_writer\<lparr>write_err := Some (GoError ''broken pipe'')\<rparr>\<rparr>)))
     = []
   \<and> warnings (logged (notFoundHandler ex_libs ex_request ex_state))
     = [(LevelWarn, ''404 not found: GET /unknown'')]\<close>
  using fallback_handlers_record_only_after_write [where lib = ex_libs and r = ex_request
          and st = "ex_state\<lparr>writer := fresh_writer\<lparr>write_err := Some (GoError ''broken pipe'')\<rparr>\<rparr>"]
        fallback_handlers_record_only_after_write [where lib = ex_libs and r = ex_request
          and st = ex_state]
  by (simp add: ex_state_def fresh_writer_def ex_request_def warnings_def)




section \<open>Properties of the middleware\<close>

subsection \<open>Headers and identifiers\<close>

lemma map_of_filter_other:
  "k' \<noteq> k \<Longrightarrow> map_of (filter (\<lambda>p. fst p \<noteq> k) hdr) k' = map_of hdr k'"
  by (induction hdr) auto

lemma transport_Header_Get_Set [simp]:
  "transport_Header_Get (transport_Header_Set k v hdr) k' =
     (if k' = k then v else transport_Header_Get hdr k')"
  by (simp add: transport_Header_Get_def transport_Header_Set_def map_of_filter_other)

lemma set_trace_headers_Get:
  "transport_Header_Get (ReplyHeader (set_trace_headers t sp reply s)) ''Trace-Id'' = t"
  "transport_Header_Get (ReplyHeader (set_trace_headers t sp reply s)) ''Span-Id'' = sp"
  by (simp_all add: set_trace_headers_def Let_def contentTypeKey_def split: any.splits)

lemma set_trace_headers_svc [simp]: "svc (set_trace_headers t sp reply s) = svc s"
  by (simp add: set_trace_headers_def Let_def split: any.splits)

lemma deferred_Dec_svc [simp]:
  "svc (deferred_Dec registered api s)
     = (if registered then map_option (inflight_Dec api) (svc s) else svc s)"
  by (simp add: deferred_Dec_def)

lemma log_svc [simp]:
  "svc (log_request lib tr reqHdr req s) = svc s"
  "svc (log_response lib tr start reply err s) = svc s"
  "now (log_request lib tr reqHdr req s) = now s"
  by (simp_all add: log_request_def log_response_def Let_def)

text \<open>A hexadecimal rendering is all zeros only for the number zero.\<close>

lemma hexdigit_zero: "d < 16 \<Longrightarrow> hexdigit d = CHR ''0'' \<Longrightarrow> d = 0"
  unfolding hexdigit_def by (auto simp: numeral_eq_Suc less_Suc_eq)

lemma hex_zero: "n < 16 ^ k \<Longrightarrow> hex k n = replicate k CHR ''0'' \<Longrightarrow> n = 0"
proof (induction k arbitrary: n)
  case 0
  then show ?case by simp
next
  case (Suc k)
  from Suc.prems(2)
  have "hex k (n div 16) @ [hexdigit (n mod 16)] = replicate k CHR ''0'' @ [CHR ''0'']"
    by (simp add: replicate_append_same)
  then have a: "hex k (n div 16) = replicate k CHR ''0''" and b: "hexdigit (n mod 16) = CHR ''0''"
    by simp_all
  from Suc.prems(1) have "n div 16 < 16 ^ k"
    by (simp add: less_mult_imp_div_less mult.commute)
  with a Suc.IH have "n div 16 = 0" by blast
  moreover from b have "n mod 16 = 0" by (intro hexdigit_zero) simp_all
  ultimately show ?case by (metis div_mult_mod_eq add.right_neutral mult_zero_left)
qed

lemma TraceID_String_nonzero: "t \<noteq> 0 \<Longrightarrow> TraceID_String t \<noteq> replicate 32 CHR ''0''"
proof
  assume t: "t \<noteq> 0" and z: "TraceID_String t = replicate 32 CHR ''0''"
  have "unat t < 2 ^ 128" using unsigned_less [of t] by simp
  then have "unat t < 16 ^ 32" by simp
  then have "unat t = 0" using z unfolding TraceID_String_def by (rule hex_zero)
  with t show False by (simp add: unat_eq_0)
qed

lemma SpanID_String_nonzero: "s \<noteq> 0 \<Longrightarrow> SpanID_String s \<noteq> replicate 16 CHR ''0''"
proof
  assume t: "s \<noteq> 0" and z: "SpanID_String s = replicate 16 CHR ''0''"
  have "unat s < 2 ^ 64" using unsigned_less [of s] by simp
  then have "unat s < 16 ^ 16" by simp
  then have "unat s = 0" using z unfolding SpanID_String_def by (rule hex_zero)
  with t show False by (simp add: unat_eq_0)
qed

lemma none_not_zeros: "''none'' \<noteq> replicate 32 CHR ''0''" "''none'' \<noteq> replicate 16 CHR ''0''"
proof -
  have "length ''none'' \<noteq> length (replicate 32 CHR ''0'')" by simp
  then show "''none'' \<noteq> replicate 32 CHR ''0''" by metis
  have "length ''none'' \<noteq> length (replicate 16 CHR ''0'')" by simp
  then show "''none'' \<noteq> replicate 16 CHR ''0''" by metis
qed

lemma traceIDAndSpanIDFromSpan_nonzero:
  "fst (traceIDAndSpanIDFromSpan span) \<noteq> replicate 32 CHR ''0''"
  "snd (traceIDAndSpanIDFromSpan span) \<noteq> replicate 16 CHR ''0''"
  using none_not_zeros
  by (auto simp: traceIDAndSpanIDFromSpan_def IsValid_def traceIDNone_def spanIDNone_def
        TraceID_String_nonzero SpanID_String_nonzero)

lemma TracerLogPack_headers:
  assumes "Err ctx = None" "FromServerContext ctx = Some tr" "RequestHeader tr = Some reqHdr"
  shows "transport_Header_Get (ReplyHeader (snd (TracerLogPack lib handler ctx req s0))) ''Trace-Id''
           = fst (traceIDAndSpanIDFromSpan (SpanContextFromContext
                   (extractTraceContextFromRequest ctx (Some reqHdr))))"
    and "transport_Header_Get (ReplyHeader (snd (TracerLogPack lib handler ctx req s0))) ''Span-Id''
           = snd (traceIDAndSpanIDFromSpan (SpanContextFromContext
                   (extractTraceContextFromRequest ctx (Some reqHdr))))"
  using assms
  by (simp_all add: TracerLogPack_def Let_def set_trace_headers_Get
        split: prod.splits outcome.splits)

lemma TracerLogPackWithMetrics_headers:
  assumes "Err ctx = None" "FromServerContext ctx = Some tr" "RequestHeader tr = Some reqHdr"
  shows "transport_Header_Get (ReplyHeader (snd (TracerLogPackWithMetrics lib handler ctx req s0)))
           ''Trace-Id''
           = fst (traceIDAndSpanIDFromSpan (SpanContextFromContext
                   (extractTraceContextFromRequest ctx (Some reqHdr))))"
    and "transport_Header_Get (ReplyHeader (snd (TracerLogPackWithMetrics lib handler ctx req s0)))
           ''Span-Id''
           = snd (traceIDAndSpanIDFromSpan (SpanContextFromContext
                   (extractTraceContextFromRequest ctx (Some reqHdr))))"
  using assms
  by (simp_all add: TracerLogPackWithMetrics_def Let_def set_trace_headers_Get
        split: prod.splits outcome.splits)

lemma TracerLogPack_outcome:
  assumes "Err ctx = None" "FromServerContext ctx = Some tr" "RequestHeader tr = Some reqHdr"
  shows "fst (TracerLogPack lib handler ctx req s0)
           = fst (handler (extractTraceContextFromRequest ctx (Some reqHdr)) req
                    (log_request lib tr reqHdr req s0))"
  using assms
  by (simp add: TracerLogPack_def Let_def split: prod.splits outcome.splits)

text \<open>
  C4. For a request whose context is not cancelled and whose transporter is available
  with a non-nil request header carrier, both middlewares leave \<open>Trace-Id\<close> and
  \<open>Span-Id\<close> set in the reply header whatever the handler does (return a reply, return
  an error, or panic): the hexadecimal ids of the span bound after extraction when that
  span is valid, and \<open>none\<close> for both otherwise. Neither value is ever an all-zero
  identifier.
\<close>

theorem trace_headers_set_on_every_exit:
  assumes "Err ctx = None" and "FromServerContext ctx = Some tr"
    and "RequestHeader tr = Some reqHdr"
    and "span = SpanContextFromContext (extractTraceContextFromRequest ctx (Some reqHdr))"
    and "s' = snd (TracerLogPack lib handler ctx req s0)"
    and "s'' = snd (TracerLogPackWithMetrics lib handler ctx req s0)"
  shows "transport_Header_Get (ReplyHeader s') ''Trace-Id''
           = (if IsValid span then TraceID_String (TraceID span) else ''none'')
       \<and> transport_Header_Get (ReplyHeader s') ''Span-Id''
           = (if IsValid span then SpanID_String (SpanID span) else ''none'')
       \<and> transport_Header_Get (ReplyHeader s') ''Trace-Id'' \<noteq> replicate 32 CHR ''0''
       \<and> transport_Header_Get (ReplyHeader s') ''Span-Id'' \<noteq> replicate 16 CHR ''0''
       \<and> transport_Header_Get (ReplyHeader s'') ''Trace-Id''
           = (if IsValid span then TraceID_String (TraceID span) else ''none'')
       \<and> transport_Header_Get (ReplyHeader s'') ''Span-Id''
           = (if IsValid span then SpanID_String (SpanID span) else ''none'')
       \<and> transport_Header_Get (ReplyHeader s'') ''Trace-Id'' \<noteq> replicate 32 CHR ''0''
       \<and> transport_Header_Get (ReplyHeader s'') ''Span-Id'' \<noteq> replicate 16 CHR ''0''"
proof -
  note h1 = TracerLogPack_headers [OF assms(1,2,3), of lib handler req s0]
  note h2 = TracerLogPackWithMetrics_headers [OF assms(1,2,3), of lib handler req s0]
  have f: "fst (traceIDAndSpanIDFromSpan span)
             = (if IsValid span then TraceID_String (TraceID span) else ''none'')"
    and g: "snd (traceIDAndSpanIDFromSpan span)
             = (if IsValid span then SpanID_String (SpanID span) else ''none'')"
    by (simp_all add: traceIDAndSpanIDFromSpan_def traceIDNone_def spanIDNone_def)
  show ?thesis
    unfolding assms(5,6) h1 h2 assms(4) [symmetric]
    using traceIDAndSpanIDFromSpan_nonzero [of span] f g
    by simp
qed

theorem trace_headers_set_on_every_exit_witness:
  "Err ex_ctx = None \<and> FromServerContext ex_ctx = Some ex_transporter
   \<and> RequestHeader ex_transporter = Some []
   \<and> fst (TracerLogPack ex_mw_libs failing_handler ex_ctx (Other ''req'') mw_state0)
       = Return AnyNil (Some (GoError ''boom''))
   \<and> transport_Header_Get
         (ReplyHeader (snd (TracerLogPack ex_mw_libs failing_handler ex_ctx (Other ''req'') mw_state0)))
         ''Trace-Id'' = ''none''
   \<and> transport_Header_Get
         (ReplyHeader (snd (TracerLogPack ex_mw_libs failing_handler ex_ctx (Other ''req'') mw_state0)))
         ''Span-Id'' = ''none''"
proof -
  have r: "fst (TracerLogPack ex_mw_libs failing_handler ex_ctx (Other ''req'') mw_state0)
       = Return AnyNil (Some (GoError ''boom''))"
    by (simp add: TracerLogPack_def ex_ctx_def ex_transporter_def failing_handler_def Let_def
          split: prod.splits)
  have v: "\<not> IsValid (SpanContextFromContext (extractTraceContextFromRequest ex_ctx (Some [])))"
    by (simp add: extractTraceContextFromRequest_def tracePropagator_Extract_def
          transport_Header_Get_def parse_traceparent_def ex_ctx_def no_span_def IsValid_def)
  show ?thesis
    using trace_headers_set_on_every_exit [where ctx = ex_ctx and tr = ex_transporter
            and reqHdr = "[]" and lib = ex_mw_libs and handler = failing_handler
            and req = "Other ''req''" and ?s0.0 = mw_state0, OF _ _ _ refl refl refl] r v
    by (simp add: ex_ctx_def ex_transporter_def)
qed

subsection \<open>Cancellation\<close>

text \<open>
  C5. When the context is already cancelled or expired at entry, \<open>TracerLogPack\<close> and
  \<open>TracerLogPackWithMetrics\<close> return \<open>(nil, ctx.Err())\<close> and leave the state as it was:
  the handler is not invoked, nothing is logged, no metric is recorded, no header is
  set, and the result does not depend on the handler or on the libraries.
\<close>

theorem cancelled_context_short_circuits:
  assumes "Err ctx = Some e"
  shows "TracerLogPack lib handler ctx req s0 = (Return AnyNil (Some e), s0)
       \<and> TracerLogPackWithMetrics lib handler ctx req s0 = (Return AnyNil (Some e), s0)"
  using assms by (simp add: TracerLogPack_def TracerLogPackWithMetrics_def)

theorem cancelled_context_short_circuits_witness:
  "Err cancelled_ctx = Some (GoError ''context canceled'')
   \<and> TracerLogPack ex_mw_libs failing_handler cancelled_ctx (Other ''req'') mw_state0
       = (Return AnyNil (Some (GoError ''context canceled'')), mw_state0)
   \<and> TracerLogPackWithMetrics ex_mw_libs failing_handler cancelled_ctx (Other ''req'') mw_state0
       = (Return AnyNil (Some (GoError ''context canceled'')), mw_state0)"
  using cancelled_context_short_circuits [where ctx = cancelled_ctx
          and e = "GoError ''context canceled''" and lib = ex_mw_libs
          and handler = failing_handler and req = "Other ''req''" and ?s0.0 = mw_state0]
  by (simp add: cancelled_ctx_def ex_ctx_def)

subsection \<open>Size-bounded serialisation\<close>

lemma decimal_1048577: "decimal 1048577 = ''1048577''"
  by (simp add: decimal.simps digit_def)

text \<open>
  C6. When \<open>protojson.Marshal\<close> succeeds with more than 1024 * 1024 bytes,
  \<open>safeProtoToJSON\<close> returns the placeholder that states the byte count instead of the
  payload; at or under the limit it returns the JSON text itself. When marshalling fails
  it returns the error as a value; the middleware then logs
  \<open><failed to marshal request: ...>\<close> as the body and still invokes the handler, whose
  outcome it returns.
\<close>

theorem safeProtoToJSON_size_bound:
  assumes "Err ctx = None" and "FromServerContext ctx = Some tr"
    and "RequestHeader tr = Some reqHdr"
  shows "(protojson_Marshal lib msg = Inr bs \<and> length bs > 1024 * 1024 \<longrightarrow>
            safeProtoToJSON lib msg
              = Inr (''<body too large, size: '' @ Itoa (int (length bs)) @ '' bytes>''))
       \<and> (protojson_Marshal lib msg = Inr bs \<and> length bs \<le> 1024 * 1024 \<longrightarrow>
            safeProtoToJSON lib msg = Inr bs)
       \<and> (protojson_Marshal lib msg = Inl e \<longrightarrow>
            safeProtoToJSON lib msg = Inl e
            \<and> body_text lib ''request'' (ProtoMessage msg)
                = ''<failed to marshal request: '' @ Error e @ ''>''
            \<and> fst (TracerLogPack lib handler ctx (ProtoMessage msg) s0)
                = fst (handler (extractTraceContextFromRequest ctx (Some reqHdr)) (ProtoMessage msg)
                         (log_request lib tr reqHdr (ProtoMessage msg) s0)))"
  using TracerLogPack_outcome [OF assms, of lib handler "ProtoMessage msg" s0]
  by (simp add: safeProtoToJSON_def maxBodySize_def body_text_def)

theorem safeProtoToJSON_size_bound_witness:
  "Err ex_ctx = None \<and> FromServerContext ex_ctx = Some ex_transporter
   \<and> RequestHeader ex_transporter = Some []
   \<and> safeProtoToJSON ex_mw_libs 1048577 = Inr ''<body too large, size: 1048577 bytes>''
   \<and> safeProtoToJSON ex_mw_libs 3 = Inr ''xxx''
   \<and> safeProtoToJSON broken_mw_libs 3 = Inl (GoError ''proto: invalid UTF-8'')
   \<and> fst (TracerLogPack broken_mw_libs echo_handler ex_ctx (ProtoMessage 3) mw_state0)
       = Return (ProtoMessage 3) None"
proof -
  have c: "Err ex_ctx = None" "FromServerContext ex_ctx = Some ex_transporter"
    "RequestHeader ex_transporter = Some []"
    by (simp_all add: ex_ctx_def ex_transporter_def)
  have a: "protojson_Marshal ex_mw_libs 1048577 = Inr (replicate 1048577 CHR ''x'')"
    "protojson_Marshal ex_mw_libs 3 = Inr ''xxx''"
    "protojson_Marshal broken_mw_libs 3 = Inl (GoError ''proto: invalid UTF-8'')"
    by (simp_all add: ex_mw_libs_def broken_mw_libs_def numeral_3_eq_3)
  have h: "fst (echo_handler (extractTraceContextFromRequest ex_ctx (Some [])) (ProtoMessage 3)
                  (log_request broken_mw_libs ex_transporter [] (ProtoMessage 3) mw_state0))
           = Return (ProtoMessage 3) None"
    by (simp add: echo_handler_def)
  show ?thesis
    using safeProtoToJSON_size_bound [OF c, where lib = ex_mw_libs and msg = 1048577
            and bs = "replicate 1048577 CHR ''x''"]
          safeProtoToJSON_size_bound [OF c, where lib = ex_mw_libs and msg = 3 and bs = "''xxx''"]
          safeProtoToJSON_size_bound [OF c, where lib = broken_mw_libs and msg = 3
            and e = "GoError ''proto: invalid UTF-8''" and handler = echo_handler
            and ?s0.0 = mw_state0]
          a c h
    by (simp add: Itoa_def decimal_1048577)
qed

subsection \<open>Metric labels\<close>

lemma record_metrics_fields:
  "requestCounter (record_metrics lib api d reply err h)
     = map_option (Inc [''POST'', api, if err = None then ''success'' else ''error''])
         (requestCounter h)"
  "requestDuration (record_metrics lib api d reply err h)
     = map_option (Observe [''POST'', api] d) (requestDuration h)"
  "responseSize (record_metrics lib api d reply err h)
     = (case reply of
          ProtoMessage m \<Rightarrow>
            (case proto_Marshal lib m of
               Inr data \<Rightarrow> map_option (Observe [''POST'', api] (length data)) (responseSize h)
             | Inl e \<Rightarrow> responseSize h)
        | _ \<Rightarrow> responseSize h)"
  "errorCounter (record_metrics lib api d reply err h)
     = (if err = None then errorCounter h
        else map_option (Inc [''POST'', api, ''tracer_error'']) (errorCounter h))"
  by (auto simp add: record_metrics_def Let_def split: option.splits any.splits sum.splits)

lemma inflight_Dec_fields [simp]:
  "requestCounter (inflight_Dec api h) = requestCounter h"
  "requestDuration (inflight_Dec api h) = requestDuration h"
  "responseSize (inflight_Dec api h) = responseSize h"
  "requestSize (inflight_Dec api h) = requestSize h"
  "errorCounter (inflight_Dec api h) = errorCounter h"
  by (simp_all add: inflight_Dec_def split: option.splits)

lemma metrics_before_requestSize:
  "svc s = Some h0 \<Longrightarrow>
   \<exists>h1. svc (snd (metrics_before lib api req s)) = Some h1 \<and>
     requestSize h1 = (case req of
          ProtoMessage m \<Rightarrow>
            (case proto_Marshal lib m of
               Inr data \<Rightarrow> map_option (Observe [''POST'', api] (length data)) (requestSize h0)
             | Inl e \<Rightarrow> requestSize h0)
        | _ \<Rightarrow> requestSize h0)"
  by (auto simp add: metrics_before_def observe_requestSize_def inflight_Inc_def
        split: option.splits any.splits sum.splits)

lemma TracerLogPackWithMetrics_svc:
  assumes "Err ctx = None" and "FromServerContext ctx = Some tr"
    and "RequestHeader tr = Some reqHdr"
    and "metrics_before lib (Operation tr) req (log_request lib tr reqHdr req s0) = (registered, s1)"
    and "handler (extractTraceContextFromRequest ctx (Some reqHdr)) req s1 = (Return reply err, s2)"
  shows "svc (snd (TracerLogPackWithMetrics lib handler ctx req s0))
      = (if registered
         then map_option (inflight_Dec (Operation tr))
                (map_option (record_metrics lib (Operation tr) (now s2 - now s0) reply err) (svc s2))
         else map_option (record_metrics lib (Operation tr) (now s2 - now s0) reply err) (svc s2))"
  using assms
  by (simp add: TracerLogPackWithMetrics_def Let_def split: prod.splits)

lemma ex_metrics_before:
  "metrics_before ex_mw_libs (Operation ex_transporter) (Other ''req'')
       (log_request ex_mw_libs ex_transporter [] (Other ''req'') mw_state0)
   = (True, (log_request ex_mw_libs ex_transporter [] (Other ''req'') mw_state0)
              \<lparr>svc := Some (inflight_Inc (Operation ex_transporter) ex_service)\<rparr>)"
  by (simp add: metrics_before_def mw_state0_def observe_requestSize_def inflight_Inc_def
        ex_service_def)

lemma ex_inflight_Inc_requestCounter:
  "requestCounter (inflight_Inc (Operation ex_transporter) ex_service) = Some (\<lambda>_. 0)"
  by (simp add: inflight_Inc_def ex_service_def)

text \<open>
  C7, as stated, fails: for a GET request the request counter is incremented under the
  method label \<open>POST\<close>, and the counter for \<open>GET\<close> stays at 0.
\<close>

theorem metrics_method_label_not_request_method:
  "Request_Method ex_transporter = ''GET''
   \<and> requestCounter_value
        (snd (TracerLogPackWithMetrics ex_mw_libs echo_handler ex_ctx (Other ''req'') mw_state0))
        [''GET'', ''/helloworld.Greeter/SayHello'', ''success''] = Some 0
   \<and> requestCounter_value
        (snd (TracerLogPackWithMetrics ex_mw_libs echo_handler ex_ctx (Other ''req'') mw_state0))
        [''POST'', ''/helloworld.Greeter/SayHello'', ''success''] = Some 1"
proof -
  have c: "Err ex_ctx = None" "FromServerContext ex_ctx = Some ex_transporter"
    "RequestHeader ex_transporter = Some []"
    by (simp_all add: ex_ctx_def ex_transporter_def)
  show ?thesis
    using TracerLogPackWithMetrics_svc [where handler = echo_handler and lib = ex_mw_libs,
            OF c ex_metrics_before, of "Other ''req''" None]
          ex_inflight_Inc_requestCounter
    by (simp add: echo_handler_def requestCounter_value_def record_metrics_fields
          ex_transporter_def Inc_def)
qed

text \<open>
  C7, amended. For a request processed by the metrics-enabled middleware (context not
  cancelled, transporter and request header available, service non-nil) whose handler
  returns, each vector that is configured is updated under the constant method label
  \<open>POST\<close> together with the operation name: the request size before the handler and the
  response size after it (for a protobuf message that marshals), the duration, the
  request counter with the outcome \<open>success\<close> or \<open>error\<close>, and, on error, the error
  counter with the reason \<open>tracer_error\<close>. The HTTP method of the request is not used.
\<close>

theorem metrics_labels_POST_and_operation:
  assumes "Err ctx = None" and "FromServerContext ctx = Some tr"
    and "RequestHeader tr = Some reqHdr"
    and "svc s0 = Some h0"
    and "s1 = snd (metrics_before lib (Operation tr) req (log_request lib tr reqHdr req s0))"
    and "handler (extractTraceContextFromRequest ctx (Some reqHdr)) req s1 = (Return reply err, s2)"
    and "svc s2 = Some h2"
  shows "\<exists>h1 h'. svc s1 = Some h1
       \<and> svc (snd (TracerLogPackWithMetrics lib handler ctx req s0)) = Some h'
       \<and> requestSize h1
           = (case req of
                ProtoMessage m \<Rightarrow>
                  (case proto_Marshal lib m of
                     Inr data \<Rightarrow>
                       map_option (Observe [''POST'', Operation tr] (length data)) (requestSize h0)
                   | Inl e \<Rightarrow> requestSize h0)
              | _ \<Rightarrow> requestSize h0)
       \<and> requestCounter h'
           = map_option (Inc [''POST'', Operation tr, if err = None then ''success'' else ''error''])
               (requestCounter h2)
       \<and> requestDuration h'
           = map_option (Observe [''POST'', Operation tr] (now s2 - now s0)) (requestDuration h2)
       \<and> responseSize h'
           = (case reply of
                ProtoMessage m \<Rightarrow>
                  (case proto_Marshal lib m of
                     Inr data \<Rightarrow>
                       map_option (Observe [''POST'', Operation tr] (length data)) (responseSize h2)
                   | Inl e \<Rightarrow> responseSize h2)
              | _ \<Rightarrow> responseSize h2)
       \<and> errorCounter h'
           = (if err = None then errorCounter h2
              else map_option (Inc [''POST'', Operation tr, ''tracer_error'']) (errorCounter h2))"
proof -
  have l: "svc (log_request lib tr reqHdr req s0) = Some h0"
    using assms(4) by simp
  from metrics_before_requestSize [OF l, of lib "Operation tr" req]
  obtain h1 where h1: "svc s1 = Some h1"
    and rs: "requestSize h1 = (case req of
                ProtoMessage m \<Rightarrow>
                  (case proto_Marshal lib m of
                     Inr data \<Rightarrow>
                       map_option (Observe [''POST'', Operation tr] (length data)) (requestSize h0)
                   | Inl e \<Rightarrow> requestSize h0)
              | _ \<Rightarrow> requestSize h0)"
    unfolding assms(5) by blast
  obtain registered where mb:
    "metrics_before lib (Operation tr) req (log_request lib tr reqHdr req s0) = (registered, s1)"
    unfolding assms(5)
    by (cases "metrics_before lib (Operation tr) req (log_request lib tr reqHdr req s0)") simp
  show ?thesis
    using h1 rs assms(7)
      TracerLogPackWithMetrics_svc [where handler = handler, OF assms(1,2,3) mb assms(6)]
    by (cases registered) (simp_all add: record_metrics_fields)
qed

theorem metrics_labels_POST_and_operation_witness:
  "Err ex_ctx = None \<and> FromServerContext ex_ctx = Some ex_transporter
   \<and> RequestHeader ex_transporter = Some [] \<and> svc mw_state0 = Some ex_service
   \<and> (\<exists>h'. svc (snd (TracerLogPackWithMetrics ex_mw_libs failing_handler ex_ctx (Other ''req'')
                        mw_state0)) = Some h'
         \<and> requestCounter h'
             = Some (Inc [''POST'', ''/helloworld.Greeter/SayHello'', ''error''] (\<lambda>_. 0))
         \<and> errorCounter h'
             = Some (Inc [''POST'', ''/helloworld.Greeter/SayHello'', ''tracer_error''] (\<lambda>_. 0))
         \<and> requestDuration h'
             = Some (Observe [''POST'', ''/helloworld.Greeter/SayHello''] 5 (\<lambda>_. [])))"
proof -
  have c: "Err ex_ctx = None" "FromServerContext ex_ctx = Some ex_transporter"
    "RequestHeader ex_transporter = Some []" "svc mw_state0 = Some ex_service"
    by (simp_all add: ex_ctx_def ex_transporter_def mw_state0_def)
  define s1 where "s1 = snd (metrics_before ex_mw_libs (Operation ex_transporter) (Other ''req'')
       (log_request ex_mw_libs ex_transporter [] (Other ''req'') mw_state0))"
  have h: "failing_handler (extractTraceContextFromRequest ex_ctx (Some [])) (Other ''req'') s1
             = (Return AnyNil (Some (GoError ''boom'')), s1\<lparr>now := now s1 + 5\<rparr>)"
    by (simp add: failing_handler_def)
  have s2: "svc (s1\<lparr>now := now s1 + 5\<rparr>)
              = Some (inflight_Inc (Operation ex_transporter) ex_service)"
    and n: "now s1 = 0"
    unfolding s1_def ex_metrics_before by (simp_all add: mw_state0_def)
  have f: "requestCounter (inflight_Inc ''/helloworld.Greeter/SayHello'' ex_service) = Some (\<lambda>_. 0)"
    "errorCounter (inflight_Inc ''/helloworld.Greeter/SayHello'' ex_service) = Some (\<lambda>_. 0)"
    "requestDuration (inflight_Inc ''/helloworld.Greeter/SayHello'' ex_service) = Some (\<lambda>_. [])"
    by (simp_all add: inflight_Inc_def ex_service_def)
  have z: "now mw_state0 = 0" "Operation ex_transporter = ''/helloworld.Greeter/SayHello''"
    by (simp_all add: mw_state0_def ex_transporter_def)
  show ?thesis
    using metrics_labels_POST_and_operation [where handler = failing_handler
            and lib = ex_mw_libs, OF c s1_def h s2] c
    by (auto simp add: f z n)
qed

subsection \<open>Extraction on a context that already has a span\<close>

lemma split_on_traceparent:
  "split_on CHR ''-'' ''00-4bf92f3577b34da6a3ce929d0e0e4736-53995c3f42cd8ad8-01''
     = [''00'', ''4bf92f3577b34da6a3ce929d0e0e4736'', ''53995c3f42cd8ad8'', ''01'']"
  by simp

lemma unhex_traceparent:
  "unhex 0 ''00'' = Some 0" "unhex 0 ''01'' = Some 1"
  "unhex 0 ''53995c3f42cd8ad8'' = Some 0x53995c3f42cd8ad8"
  "unhex 0 ''4bf92f3577b34da6a3ce929d0e0e4736'' = Some 0x4bf92f3577b34da6a3ce929d0e0e4736"
  by (simp_all add: hexval_def)

lemma parse_traceparent_example:
  "parse_traceparent ''00-4bf92f3577b34da6a3ce929d0e0e4736-53995c3f42cd8ad8-01''
     = Some \<lparr>TraceID = 0x4bf92f3577b34da6a3ce929d0e0e4736, SpanID = 0x53995c3f42cd8ad8,
              TraceFlags = 1, Remote = True\<rparr>"
  unfolding parse_traceparent_def split_on_traceparent
  by (simp add: unhex_traceparent del: unhex.simps)

lemma hex_numeral: "hex (numeral k) n = hex (pred_numeral k) (n div 16) @ [hexdigit (n mod 16)]"
  using hex.simps(2) [of "pred_numeral k" n] by (simp only: numeral_eq_Suc)

lemma id_strings:
  "SpanID_String 0x53995c3f42cd8ad8 = ''53995c3f42cd8ad8''"
  "SpanID_String 0x00f067aa0ba902b7 = ''00f067aa0ba902b7''"
  "TraceID_String 0x4bf92f3577b34da6a3ce929d0e0e4736 = ''4bf92f3577b34da6a3ce929d0e0e4736''"
  by (simp_all add: SpanID_String_def TraceID_String_def unat_eq_nat_uint hex_numeral hexdigit_def)

lemma extractTraceContextFromRequest_nil:
  "extractTraceContextFromRequest ctx None = ctx"
  by (simp add: extractTraceContextFromRequest_def)

lemma extractTraceContextFromRequest_no_traceparent:
  "parse_traceparent (transport_Header_Get hdr ''traceparent'') = None \<Longrightarrow>
   extractTraceContextFromRequest ctx (Some hdr) = ctx"
  by (simp add: extractTraceContextFromRequest_def tracePropagator_Extract_def)

text \<open>
  C8. The claim is what the comment on \<open>extractTraceContextFromRequest\<close> promises, but
  the function hands every non-nil header to the propagator without looking at the span
  already bound. On a context that carries the valid span \<open>server_span\<close> and a request
  with a \<open>traceparent\<close> header, the span bound afterwards is the remote one of the
  header: the \<open>Span-Id\<close> changes from \<open>00f067aa0ba902b7\<close> to \<open>53995c3f42cd8ad8\<close>.
\<close>

theorem extract_replaces_valid_span:
  "IsValid (SpanContextFromContext traced_ctx)
   \<and> traceIDAndSpanIDFromSpan (SpanContextFromContext traced_ctx)
       = (''4bf92f3577b34da6a3ce929d0e0e4736'', ''00f067aa0ba902b7'')
   \<and> traceIDAndSpanIDFromSpan (SpanContextFromContext
         (extractTraceContextFromRequest traced_ctx (RequestHeader traced_transporter)))
       = (''4bf92f3577b34da6a3ce929d0e0e4736'', ''53995c3f42cd8ad8'')"
  by (simp add: traced_ctx_def traced_transporter_def server_span_def IsValid_def
        extractTraceContextFromRequest_def tracePropagator_Extract_def transport_Header_Get_def
        parse_traceparent_example traceIDAndSpanIDFromSpan_def id_strings)

end
